theory Spec2Isabelle
  imports Main
begin

section \<open>Data model\<close>

text \<open>
  The authentication core of the backend: \<^verbatim>\<open>src/types/auth.ts\<close>, the \<^verbatim>\<open>RefreshToken\<close>
  entity, \<^verbatim>\<open>UserRepository\<close>, \<^verbatim>\<open>RefreshTokenRepository\<close> and \<^verbatim>\<open>AuthService\<close>.
  The database is an explicit state (two tables, rows in insertion order) that
  every operation takes and returns. An exception is the \<open>Inl\<close> branch of a
  sum; an operation that can change the tables before it throws returns the
  tables next to its result.
\<close>

datatype UserRole = USER | ADMIN | MODERATOR

record JWTPayload =
  userId :: string
  email :: string
  role :: UserRole

text \<open>
  A JavaScript \<^verbatim>\<open>Date\<close>: a time value in milliseconds since the epoch (UTC), or
  the invalid date (time value NaN).
\<close>

datatype Date = InvalidDate | Time int

text \<open>
  The time zone of the process is a parameter. \<open>LocalTZA tz t True\<close> is the offset
  of local time from UTC, in milliseconds, at the UTC time value \<open>t\<close>;
  \<open>LocalTZA tz t False\<close> is the offset that belongs to the local time value \<open>t\<close>.
  \<^verbatim>\<open>LocalTime\<close> and \<^verbatim>\<open>UTC\<close> are the two conversions of the language specification.
\<close>

record TimeZone =
  LocalTZA :: "int \<Rightarrow> bool \<Rightarrow> int"

definition LocalTime :: "TimeZone \<Rightarrow> int \<Rightarrow> int" where
  "LocalTime tz t = t + LocalTZA tz t True"

definition UTC :: "TimeZone \<Rightarrow> int \<Rightarrow> int" where
  "UTC tz t = t - LocalTZA tz t False"

text \<open>\<^verbatim>\<open>a < b\<close> on two dates compares the time values; a comparison with NaN is false.\<close>

fun date_lt :: "Date \<Rightarrow> Date \<Rightarrow> bool" where
  "date_lt (Time a) (Time b) = (a < b)"
| "date_lt _ _ = False"

text \<open>
  The \<^verbatim>\<open>User\<close> entity. Its file is not among the sources; the fields are the
  ones the repositories and the service read and write (\<^verbatim>\<open>deletedAt\<close> is the
  soft-delete column of \<^verbatim>\<open>BaseEntity\<close>, \<open>None\<close> for SQL NULL).
\<close>

record User =
  id :: string
  name :: string
  email :: string
  password :: string
  role :: UserRole
  isActive :: bool
  deletedAt :: "int option"

text \<open>
  The \<^verbatim>\<open>RefreshToken\<close> entity (table \<^verbatim>\<open>refresh_tokens\<close>). The audit columns
  \<^verbatim>\<open>id\<close>, \<^verbatim>\<open>createdAt\<close> and \<^verbatim>\<open>updatedAt\<close> of a session row are read by none of the
  functions below and are left out.
\<close>

record RefreshToken =
  token :: string
  userId :: string
  expiresAt :: Date
  isActive :: bool
  userAgent :: "string option"
  ipAddress :: "string option"
  deletedAt :: "int option"

record Database =
  users :: "User list"
  refresh_tokens :: "RefreshToken list"

text \<open>
  \<^verbatim>\<open>AppError(message, statusCode)\<close> of \<^verbatim>\<open>middleware/errorHandler\<close>, and the error the
  ORM throws when an INSERT violates a unique constraint.
\<close>

datatype error = AppError string nat | QueryFailedError

section \<open>Repositories\<close>

subsection \<open>UserRepository\<close>

text \<open>
  \<^verbatim>\<open>findOne({ where: { email, deletedAt: IsNull() } })\<close>: the first row whose email
  column equals the argument and that is not soft-deleted. The comparison is the
  database's equality on the stored string.
\<close>

definition UserRepository_findByEmail :: "Database \<Rightarrow> string \<Rightarrow> User option" where
  "UserRepository_findByEmail db e =
     find (\<lambda>u. User.email u = e \<and> User.deletedAt u = None) (users db)"

definition UserRepository_findById :: "Database \<Rightarrow> string \<Rightarrow> User option" where
  "UserRepository_findById db i =
     find (\<lambda>u. User.id u = i \<and> User.deletedAt u = None) (users db)"

text \<open>
  Modelled from the spec: the \<^verbatim>\<open>User\<close> entity declaration is not among the sources.
  A new row gets a generated identifier (\<open>newId\<close>, drawn by the database), is
  active and not soft-deleted; the insert is refused when the identifier or the
  email is already stored (``email (unique)'', ``email uniqueness enforced at
  creation'').
\<close>

definition UserRepository_create ::
  "string \<Rightarrow> Database \<Rightarrow> string \<Rightarrow> string \<Rightarrow> string \<Rightarrow> UserRole \<Rightarrow> error + User \<times> Database" where
  "UserRepository_create newId db n e pw r =
     (if list_ex (\<lambda>u. User.id u = newId \<or> User.email u = e) (users db)
      then Inl QueryFailedError
      else (let u = \<lparr>User.id = newId, name = n, email = e, password = pw, role = r,
                       isActive = True, deletedAt = None\<rparr>
            in Inr (u, db\<lparr>users := users db @ [u]\<rparr>)))"

subsection \<open>RefreshTokenRepository\<close>

text \<open>
  The columns of the entity decide which rows the database takes. A
  \<^verbatim>\<open>varchar(n)\<close> column takes a string of at most \<open>n\<close> characters; of a longer one
  it takes the first \<open>n\<close> characters when all the others are spaces, and refuses it
  otherwise.
\<close>

definition varchar :: "nat \<Rightarrow> string option \<Rightarrow> string option option" where
  "varchar n v =
     (case v of
        None \<Rightarrow> Some None
      | Some s \<Rightarrow>
          if length s \<le> n then Some (Some s)
          else if list_all (\<lambda>c. c = CHR '' '') (drop n s) then Some (Some (take n s))
          else None)"

text \<open>
  The \<^verbatim>\<open>timestamp\<close> column: the driver writes the local wall-clock time of the date;
  the invalid date is no timestamp, and the column starts at 4714-11-24 BC
  (Julian day 0, 2440588 days before the epoch). The largest date of the language
  lies within the column's range.
\<close>

definition timestamp :: "TimeZone \<Rightarrow> Date \<Rightarrow> bool" where
  "timestamp tz d =
     (case d of
        InvalidDate \<Rightarrow> False
      | Time t \<Rightarrow> - 210866803200000 \<le> LocalTime tz t)"

text \<open>
  \<^verbatim>\<open>create\<close> inserts the row. The insert fails when the token is already stored
  (\<^verbatim>\<open>unique: true\<close>), when \<^verbatim>\<open>userId\<close> is the identifier of no row of the users table
  (the join column of \<^verbatim>\<open>ManyToOne\<close> is a foreign key), when \<^verbatim>\<open>expiresAt\<close> is no
  timestamp, and when \<^verbatim>\<open>userAgent\<close> or \<^verbatim>\<open>ipAddress\<close> does not fit its
  \<^verbatim>\<open>varchar(255)\<close> or \<^verbatim>\<open>varchar(45)\<close> column.
\<close>

definition RefreshTokenRepository_create ::
  "TimeZone \<Rightarrow> Database \<Rightarrow> RefreshToken \<Rightarrow> error + RefreshToken \<times> Database" where
  "RefreshTokenRepository_create tz db tokenData =
     (if list_ex (\<lambda>r. token r = token tokenData) (refresh_tokens db)
         \<or> \<not> list_ex (\<lambda>u. User.id u = userId tokenData) (users db)
         \<or> \<not> timestamp tz (expiresAt tokenData)
      then Inl QueryFailedError
      else (case (varchar 255 (userAgent tokenData), varchar 45 (ipAddress tokenData)) of
              (Some ua, Some ip) \<Rightarrow>
                (let row = tokenData\<lparr>userAgent := ua, ipAddress := ip\<rparr>
                 in Inr (row, db\<lparr>refresh_tokens := refresh_tokens db @ [row]\<rparr>))
            | _ \<Rightarrow> Inl QueryFailedError))"

text \<open>
  \<^verbatim>\<open>findOne({ where: { token, isActive: true, deletedAt: IsNull() }, relations: ['user'] })\<close>:
  the first active, not soft-deleted row with that token, together with its
  \<^verbatim>\<open>user\<close> relation. The relation is a left join on \<^verbatim>\<open>userId\<close> that, as every
  query of the ORM does by default, leaves soft-deleted rows out; a session
  whose user row is not found has \<^verbatim>\<open>user\<close> null.
\<close>

definition RefreshTokenRepository_findByToken ::
  "Database \<Rightarrow> string \<Rightarrow> (RefreshToken \<times> User option) option" where
  "RefreshTokenRepository_findByToken db t =
     (case find (\<lambda>r. token r = t \<and> RefreshToken.isActive r \<and> RefreshToken.deletedAt r = None)
                (refresh_tokens db) of
        None \<Rightarrow> None
      | Some r \<Rightarrow> Some (r, UserRepository_findById db (userId r)))"

text \<open>
  \<^verbatim>\<open>update({ token }, { isActive: false })\<close>: every row with that token is set
  inactive; \<^verbatim>\<open>affected\<close> is the number of rows the WHERE clause matched.
\<close>

definition RefreshTokenRepository_revokeToken :: "Database \<Rightarrow> string \<Rightarrow> bool \<times> Database" where
  "RefreshTokenRepository_revokeToken db t =
     (let affected = length (filter (\<lambda>r. token r = t) (refresh_tokens db))
      in (affected > 0,
          db\<lparr>refresh_tokens :=
               map (\<lambda>r. if token r = t then r\<lparr>RefreshToken.isActive := False\<rparr> else r)
                   (refresh_tokens db)\<rparr>))"

text \<open>\<^verbatim>\<open>update({ userId, isActive: true }, { isActive: false })\<close>.\<close>

definition RefreshTokenRepository_revokeAllUserTokens ::
  "Database \<Rightarrow> string \<Rightarrow> bool \<times> Database" where
  "RefreshTokenRepository_revokeAllUserTokens db uid =
     (let affected = length (filter (\<lambda>r. userId r = uid \<and> RefreshToken.isActive r)
                                    (refresh_tokens db))
      in (affected > 0,
          db\<lparr>refresh_tokens :=
               map (\<lambda>r. if userId r = uid \<and> RefreshToken.isActive r
                         then r\<lparr>RefreshToken.isActive := False\<rparr> else r)
                   (refresh_tokens db)\<rparr>))"

section \<open>Token codec\<close>

text \<open>
  \<^verbatim>\<open>jwt.sign\<close> and \<^verbatim>\<open>jwt.verify\<close> belong to the \<^verbatim>\<open>jsonwebtoken\<close> package, which is
  not among the sources; the codec is modelled from the spec. An access token has
  the logical attributes the spec lists: the claims, issued-at, expiry and
  signature. The signature is abstract: it records the secret the token was
  signed with, and it validates against a secret exactly when the two are equal.
  A string that is not a signed token is \<open>Malformed\<close>. Times and durations are in
  milliseconds.
\<close>

record AccessToken =
  claims :: JWTPayload
  issuedAt :: int
  expiry :: int
  signature :: string

datatype jwt = Signed AccessToken | Malformed string

text \<open>
  Modelled from the spec: \<^verbatim>\<open>jwt.sign(payload, secret, { expiresIn })\<close> is missing
  from the sources. ``\<^verbatim>\<open>issueAccessToken(claims, ttl)\<close>'': the token carries the
  claims, is issued now, expires one lifetime later and is signed with the secret.
\<close>

definition jwt_sign :: "JWTPayload \<Rightarrow> string \<Rightarrow> int \<Rightarrow> int \<Rightarrow> jwt" where
  "jwt_sign payload secret expiresIn now =
     Signed \<lparr>claims = payload, issuedAt = now, expiry = now + expiresIn, signature = secret\<rparr>"

text \<open>
  Modelled from the spec: \<^verbatim>\<open>jwt.verify(token, secret)\<close> is missing from the sources.
  ``Fails when: signature mismatch, malformed structure, or expiry has elapsed'';
  ``its expiry must be in the future for it to be trusted''. A failure is \<open>None\<close>
  (the package throws); otherwise the claims are returned.
\<close>

definition jwt_verify :: "jwt \<Rightarrow> string \<Rightarrow> int \<Rightarrow> JWTPayload option" where
  "jwt_verify t secret now =
     (case t of
        Malformed _ \<Rightarrow> None
      | Signed a \<Rightarrow> if signature a = secret \<and> now < expiry a then Some (claims a) else None)"

section \<open>AuthService\<close>

text \<open>
  \<^verbatim>\<open>config.jwt\<close> of \<^verbatim>\<open>config/env\<close> (not among the sources) is a parameter: the signing
  secret, the access-token lifetime that \<^verbatim>\<open>expiresIn\<close> denotes, and the string
  \<^verbatim>\<open>refreshExpiresIn\<close>.
\<close>

record Config =
  jwt_secret :: string
  jwt_expiresIn :: int
  jwt_refreshExpiresIn :: string

text \<open>
  \<^verbatim>\<open>bcrypt.hash(password, salt)\<close> and \<^verbatim>\<open>bcrypt.compare(password, hash)\<close> of the
  \<^verbatim>\<open>bcryptjs\<close> package are parameters.
\<close>

record Bcrypt =
  bcrypt_hash :: "string \<Rightarrow> string \<Rightarrow> string"
  bcrypt_compare :: "string \<Rightarrow> string \<Rightarrow> bool"

record RegisterDto =
  name :: string
  email :: string
  password :: string
  role :: "UserRole option"

record LoginDto =
  email :: string
  password :: string

record PublicUser =
  id :: string
  name :: string
  email :: string
  role :: UserRole

record AuthResponse =
  status :: string
  token :: jwt
  refreshToken :: string
  user :: PublicUser

record RefreshTokenDto =
  refreshToken :: string

record RefreshTokenResponse =
  status :: string
  token :: jwt
  refreshToken :: string

definition generateAccessToken :: "Config \<Rightarrow> int \<Rightarrow> JWTPayload \<Rightarrow> jwt" where
  "generateAccessToken cfg now payload =
     jwt_sign payload (jwt_secret cfg) (jwt_expiresIn cfg) now"

definition verifyToken :: "Config \<Rightarrow> int \<Rightarrow> jwt \<Rightarrow> error + JWTPayload" where
  "verifyToken cfg now t =
     (case jwt_verify t (jwt_secret cfg) now of
        Some payload \<Rightarrow> Inr payload
      | None \<Rightarrow> Inl (AppError ''Invalid or expired token'' 401))"

subsection \<open>Expiry of a refresh token\<close>

text \<open>
  \<^verbatim>\<open>expiresIn.replace('d', '')\<close> with a string pattern deletes the first
  occurrence of the character only: \<open>remove1\<close>.

  \<^verbatim>\<open>parseInt(s, 10)\<close>: leading white space is skipped, one sign is read, then the
  longest run of decimal digits; the result is NaN (\<open>None\<close>) when that run is
  empty. The configured string is taken to be ASCII.
\<close>

definition isWhiteSpace :: "char \<Rightarrow> bool" where
  "isWhiteSpace c = (c \<in> set [CHR '' '', CHR 0x09, CHR 0x0A, CHR 0x0B, CHR 0x0C, CHR 0x0D])"

definition isDigit :: "char \<Rightarrow> bool" where
  "isDigit c = (48 \<le> (of_char c :: nat) \<and> (of_char c :: nat) \<le> 57)"

definition digitValue :: "char \<Rightarrow> int" where
  "digitValue c = int (of_char c) - 48"

definition digitsValue :: "string \<Rightarrow> int" where
  "digitsValue ds = foldl (\<lambda>acc c. 10 * acc + digitValue c) 0 ds"

definition parseInt :: "string \<Rightarrow> int option" where
  "parseInt s =
     (let s1 = dropWhile isWhiteSpace s;
          (sign, s2) = (case s1 of
                          c # rest \<Rightarrow> if c = CHR ''-'' then (-1, rest)
                                      else if c = CHR ''+'' then (1, rest)
                                      else (1, s1)
                        | [] \<Rightarrow> (1, s1));
          ds = takeWhile isDigit s2
      in if ds = [] then None else Some (sign * digitsValue ds))"

definition msPerDay :: int where
  "msPerDay = 86400000"

text \<open>
  A time value outside \<open>\<plusminus>8.64e15\<close> ms is not a date: \<^verbatim>\<open>TimeClip\<close> of the language
  specification turns it into NaN.
\<close>

definition timeClip :: "int \<Rightarrow> Date" where
  "timeClip t = (if \<bar>t\<bar> \<le> 8640000000000000 then Time t else InvalidDate)"

text \<open>
  \<^verbatim>\<open>d = new Date(); d.setDate(d.getDate() + days)\<close>. \<^verbatim>\<open>setDate\<close> works on the local
  time value of the date: it keeps year, month and the time within the day and
  sets the day of the month, so the local day number moves by \<open>days\<close> and the local
  time value by \<open>days\<close> times \<open>msPerDay\<close>; the result is converted back with
  \<^verbatim>\<open>UTC\<close> and clipped. With NaN for \<open>days\<close> the date becomes invalid.
\<close>

definition addDays :: "TimeZone \<Rightarrow> int \<Rightarrow> int option \<Rightarrow> Date" where
  "addDays tz now days =
     (case days of
        None \<Rightarrow> InvalidDate
      | Some n \<Rightarrow> timeClip (UTC tz (LocalTime tz now + n * msPerDay)))"

definition getRefreshTokenExpiration :: "TimeZone \<Rightarrow> Config \<Rightarrow> int \<Rightarrow> Date" where
  "getRefreshTokenExpiration tz cfg now =
     (let expiresIn = jwt_refreshExpiresIn cfg;
          days = parseInt (remove1 (CHR ''d'') expiresIn)
      in addDays tz now days)"

subsection \<open>Operations\<close>

text \<open>
  What the service draws from outside is an argument: \<open>now\<close> is the clock
  (\<^verbatim>\<open>new Date()\<close>, in milliseconds), \<open>tz\<close> the time zone, \<open>rnd\<close> the hex string of
  \<^verbatim>\<open>crypto.randomBytes(64)\<close>, \<open>salt\<close> the salt of \<^verbatim>\<open>bcrypt.genSalt(10)\<close>, \<open>newId\<close>
  the identifier the database generates for a new user.
\<close>

definition hashPassword :: "Bcrypt \<Rightarrow> string \<Rightarrow> string \<Rightarrow> string" where
  "hashPassword bc salt pw = bcrypt_hash bc pw salt"

definition comparePassword :: "Bcrypt \<Rightarrow> string \<Rightarrow> string \<Rightarrow> bool" where
  "comparePassword bc pw h = bcrypt_compare bc pw h"

definition createRefreshToken ::
  "TimeZone \<Rightarrow> Config \<Rightarrow> int \<Rightarrow> string \<Rightarrow> Database \<Rightarrow> string
     \<Rightarrow> string option \<Rightarrow> string option \<Rightarrow> error + string \<times> Database" where
  "createRefreshToken tz cfg now rnd db uid ua ip =
     (let t = rnd;
          expires = getRefreshTokenExpiration tz cfg now
      in case RefreshTokenRepository_create tz db
                \<lparr>RefreshToken.token = t, userId = uid, expiresAt = expires,
                 isActive = True, userAgent = ua, ipAddress = ip, deletedAt = None\<rparr> of
           Inl e \<Rightarrow> Inl e
         | Inr (_, db') \<Rightarrow> Inr (t, db'))"

definition verifyRefreshToken ::
  "int \<Rightarrow> Database \<Rightarrow> string \<Rightarrow> (error + JWTPayload) \<times> Database" where
  "verifyRefreshToken now db t =
     (case RefreshTokenRepository_findByToken db t of
        None \<Rightarrow> (Inl (AppError ''Invalid refresh token'' 401), db)
      | Some (rt, usr) \<Rightarrow>
          if date_lt (expiresAt rt) (Time now)
          then (Inl (AppError ''Refresh token expired'' 401),
                snd (RefreshTokenRepository_revokeToken db t))
          else if \<not> RefreshToken.isActive rt
          then (Inl (AppError ''Refresh token has been revoked'' 401), db)
          else (case usr of
                  None \<Rightarrow> (Inl (AppError ''User account is deactivated'' 403), db)
                | Some u \<Rightarrow>
                    if \<not> User.isActive u
                    then (Inl (AppError ''User account is deactivated'' 403), db)
                    else (Inr \<lparr>JWTPayload.userId = User.id u, email = User.email u, role = User.role u\<rparr>,
                          db)))"

definition register ::
  "TimeZone \<Rightarrow> Bcrypt \<Rightarrow> Config \<Rightarrow> int \<Rightarrow> string \<Rightarrow> string \<Rightarrow> string \<Rightarrow> Database
     \<Rightarrow> RegisterDto \<Rightarrow> string option \<Rightarrow> string option
     \<Rightarrow> (error + AuthResponse) \<times> Database" where
  "register tz bc cfg now newId salt rnd db data ua ip =
     (case UserRepository_findByEmail db (RegisterDto.email data) of
        Some existingUser \<Rightarrow> (Inl (AppError ''User with this email already exists'' 409), db)
      | None \<Rightarrow>
          (let hashedPassword = hashPassword bc salt (RegisterDto.password data)
           in case UserRepository_create newId db (RegisterDto.name data) (RegisterDto.email data)
                     hashedPassword
                     (case RegisterDto.role data of None \<Rightarrow> USER | Some r \<Rightarrow> r) of
                Inl e \<Rightarrow> (Inl e, db)
              | Inr (u, db1) \<Rightarrow>
                  (let accessToken = generateAccessToken cfg now
                         \<lparr>JWTPayload.userId = User.id u, email = User.email u, role = User.role u\<rparr>
                   in case createRefreshToken tz cfg now rnd db1 (User.id u) ua ip of
                        Inl e \<Rightarrow> (Inl e, db1)
                      | Inr (rt, db2) \<Rightarrow>
                          (Inr \<lparr>AuthResponse.status = ''success'', token = accessToken, refreshToken = rt,
                                user = \<lparr>PublicUser.id = User.id u, name = User.name u,
                                         email = User.email u, role = User.role u\<rparr>\<rparr>,
                           db2))))"

definition login ::
  "TimeZone \<Rightarrow> Bcrypt \<Rightarrow> Config \<Rightarrow> int \<Rightarrow> string \<Rightarrow> Database \<Rightarrow> LoginDto
     \<Rightarrow> string option \<Rightarrow> string option \<Rightarrow> (error + AuthResponse) \<times> Database" where
  "login tz bc cfg now rnd db data ua ip =
     (case UserRepository_findByEmail db (LoginDto.email data) of
        None \<Rightarrow> (Inl (AppError ''Invalid email or password'' 401), db)
      | Some u \<Rightarrow>
          if \<not> User.isActive u
          then (Inl (AppError ''Account is deactivated'' 403), db)
          else if \<not> comparePassword bc (LoginDto.password data) (User.password u)
          then (Inl (AppError ''Invalid email or password'' 401), db)
          else (let accessToken = generateAccessToken cfg now
                      \<lparr>JWTPayload.userId = User.id u, email = User.email u, role = User.role u\<rparr>
                in case createRefreshToken tz cfg now rnd db (User.id u) ua ip of
                     Inl e \<Rightarrow> (Inl e, db)
                   | Inr (rt, db') \<Rightarrow>
                       (Inr \<lparr>AuthResponse.status = ''success'', token = accessToken, refreshToken = rt,
                             user = \<lparr>PublicUser.id = User.id u, name = User.name u,
                                      email = User.email u, role = User.role u\<rparr>\<rparr>,
                        db')))"

definition refreshToken ::
  "Config \<Rightarrow> int \<Rightarrow> Database \<Rightarrow> RefreshTokenDto \<Rightarrow> (error + RefreshTokenResponse) \<times> Database" where
  "refreshToken cfg now db data =
     (case verifyRefreshToken now db (RefreshTokenDto.refreshToken data) of
        (Inl e, db') \<Rightarrow> (Inl e, db')
      | (Inr payload, db') \<Rightarrow>
          (Inr \<lparr>status = ''success'', token = generateAccessToken cfg now payload,
                refreshToken = RefreshTokenDto.refreshToken data\<rparr>,
           db'))"

definition revokeRefreshToken :: "Database \<Rightarrow> string \<Rightarrow> bool \<times> Database" where
  "revokeRefreshToken db t = RefreshTokenRepository_revokeToken db t"

definition revokeAllUserTokens :: "Database \<Rightarrow> string \<Rightarrow> bool \<times> Database" where
  "revokeAllUserTokens db uid = RefreshTokenRepository_revokeAllUserTokens db uid"

section \<open>Routes\<close>


text \<open>
  The JSON body of a registration request; \<^verbatim>\<open>role\<close> is \<open>None\<close> when the field is
  absent.
\<close>

record RegisterBody =
  name :: string
  email :: string
  password :: string
  role :: "string option"













section \<open>Example states\<close>

text \<open>
  Concrete configurations, rows and tables on which the theorems below are
  instantiated. \<open>plain_bcrypt\<close> stands in for the hashing package: the ``hash''
  is the salt, a separator and the password.
\<close>

definition utc :: TimeZone where
  "utc = \<lparr>LocalTZA = (\<lambda>t isUTC. 0)\<rparr>"

text \<open>
  A zone five hours behind UTC that moves its clocks forward by one hour at the
  time value \<open>100000000000\<close>; a local time that the change skips has the offset
  from before the change.
\<close>

definition zone_dst :: TimeZone where
  "zone_dst =
     \<lparr>LocalTZA = (\<lambda>t isUTC.
        if isUTC then (if t < 100000000000 then - 18000000 else - 14400000)
        else (if t < 100000000000 - 14400000 then - 18000000 else - 14400000))\<rparr>"



definition example_config :: Config where
  "example_config =
     \<lparr>jwt_secret = ''secret'', jwt_expiresIn = 900000, jwt_refreshExpiresIn = ''30d''\<rparr>"

definition plain_bcrypt :: Bcrypt where
  "plain_bcrypt =
     \<lparr>bcrypt_hash = (\<lambda>pw salt. salt @ ''$'' @ pw),
      bcrypt_compare = (\<lambda>pw h. tl (dropWhile (\<lambda>c. c \<noteq> CHR ''$'') h) = pw)\<rparr>"

definition user_jane :: User where
  "user_jane =
     \<lparr>User.id = ''u1'', name = ''Jane'', email = ''jane@x.com'', password = ''s1$secret1'',
      role = USER, isActive = True, deletedAt = None\<rparr>"

definition user_bob :: User where
  "user_bob =
     \<lparr>User.id = ''u2'', name = ''Bob'', email = ''bob@x.com'', password = ''s2$hunter2'',
      role = ADMIN, isActive = False, deletedAt = None\<rparr>"

definition session_jane :: RefreshToken where
  "session_jane =
     \<lparr>RefreshToken.token = ''aa'', userId = ''u1'', expiresAt = Time 5000, isActive = True,
      userAgent = None, ipAddress = None, deletedAt = None\<rparr>"

definition session_jane2 :: RefreshToken where
  "session_jane2 =
     \<lparr>RefreshToken.token = ''bb'', userId = ''u1'', expiresAt = Time 9000, isActive = True,
      userAgent = Some ''curl'', ipAddress = None, deletedAt = None\<rparr>"

definition session_bob :: RefreshToken where
  "session_bob =
     \<lparr>RefreshToken.token = ''cc'', userId = ''u2'', expiresAt = Time 9000, isActive = True,
      userAgent = None, ipAddress = Some ''10.0.0.1'', deletedAt = None\<rparr>"

definition session_revoked :: RefreshToken where
  "session_revoked =
     \<lparr>RefreshToken.token = ''dd'', userId = ''u1'', expiresAt = Time 9000, isActive = False,
      userAgent = None, ipAddress = None, deletedAt = None\<rparr>"

definition example_db :: Database where
  "example_db =
     \<lparr>users = [user_jane, user_bob],
      refresh_tokens = [session_jane, session_jane2, session_bob, session_revoked]\<rparr>"

definition empty_db :: Database where
  "empty_db = \<lparr>users = [], refresh_tokens = []\<rparr>"

lemmas example_defs =
  utc_def example_config_def plain_bcrypt_def user_jane_def user_bob_def session_jane_def
  session_jane2_def session_bob_def session_revoked_def example_db_def empty_db_def

text \<open>
  The tables after Jane has registered on the empty database at time 0, with
  identifier \<open>''u1''\<close>, salt \<open>''s1''\<close> and random token \<open>''aa''\<close>, and the response.
\<close>

definition jane_dto :: RegisterDto where
  "jane_dto = \<lparr>RegisterDto.name = ''Jane'', email = ''jane@x.com'', password = ''secret1'',
                role = None\<rparr>"

definition session_new :: RefreshToken where
  "session_new =
     \<lparr>RefreshToken.token = ''aa'', userId = ''u1'', expiresAt = Time 2592000000, isActive = True,
      userAgent = None, ipAddress = None, deletedAt = None\<rparr>"

definition registered_db :: Database where
  "registered_db = \<lparr>users = [user_jane], refresh_tokens = [session_new]\<rparr>"

definition jane_response :: "int \<Rightarrow> string \<Rightarrow> AuthResponse" where
  "jane_response now t =
     \<lparr>AuthResponse.status = ''success'',
      token = Signed \<lparr>claims = \<lparr>JWTPayload.userId = ''u1'', email = ''jane@x.com'', role = USER\<rparr>,
                      issuedAt = now, expiry = now + 900000, signature = ''secret''\<rparr>,
      refreshToken = t,
      user = \<lparr>PublicUser.id = ''u1'', name = ''Jane'', email = ''jane@x.com'', role = USER\<rparr>\<rparr>"

lemmas more_defs = jane_dto_def session_new_def registered_db_def jane_response_def

section \<open>Auxiliary facts\<close>

text \<open>
  Under a unique key, the first row that satisfies a condition fixing the key is
  the only row with that key.
\<close>

lemma find_distinct_key:
  assumes "distinct (map f xs)" and "x \<in> set xs" and "P x" and "f x = k"
    and "\<forall>y \<in> set xs. P y \<longrightarrow> f y = k"
  shows "find P xs = Some x"
  using assms
proof (induction xs)
  case Nil
  then show ?case by simp
next
  case (Cons a xs)
  show ?case
  proof (cases "a = x")
    case True
    with Cons.prems(3) show ?thesis by simp
  next
    case False
    with Cons.prems(2) have xin: "x \<in> set xs" by simp
    have "\<not> P a"
    proof
      assume "P a"
      with Cons.prems(5) have "f a = k" by simp
      with Cons.prems(4) have "f a = f x" by simp
      moreover from xin have "f x \<in> f ` set xs" by (rule imageI)
      moreover from Cons.prems(1) have "f a \<notin> f ` set xs" by simp
      ultimately show False by simp
    qed
    moreover have "find P xs = Some x"
    proof (rule Cons.IH)
      show "distinct (map f xs)" using Cons.prems(1) by simp
      show "x \<in> set xs" by (rule xin)
      show "P x" by (rule Cons.prems(3))
      show "f x = k" by (rule Cons.prems(4))
      show "\<forall>y \<in> set xs. P y \<longrightarrow> f y = k" using Cons.prems(5) by simp
    qed
    ultimately show ?thesis by simp
  qed
qed

section \<open>Refresh\<close>



section \<open>Access tokens\<close>

text \<open>
  Claim C2. For every claims record, every lifetime and every issue time: the
  access token issued for the claims verifies to exactly those claims at every
  time before issue time plus lifetime, and verification fails with
  \<open>AppError ''Invalid or expired token'' 401\<close> at every time from then on.
\<close>

theorem access_token_round_trip:
  "(now' < now + jwt_expiresIn cfg \<longrightarrow>
      verifyToken cfg now' (generateAccessToken cfg now payload) = Inr payload) \<and>
   (now + jwt_expiresIn cfg \<le> now' \<longrightarrow>
      verifyToken cfg now' (generateAccessToken cfg now payload)
        = Inl (AppError ''Invalid or expired token'' 401))"
  by (simp add: verifyToken_def generateAccessToken_def jwt_sign_def jwt_verify_def)

theorem access_token_round_trip_witness:
  "verifyToken example_config 900999
     (generateAccessToken example_config 1000
        \<lparr>JWTPayload.userId = ''u1'', email = ''jane@x.com'', role = USER\<rparr>)
     = Inr \<lparr>JWTPayload.userId = ''u1'', email = ''jane@x.com'', role = USER\<rparr> \<and>
   verifyToken example_config 901000
     (generateAccessToken example_config 1000
        \<lparr>JWTPayload.userId = ''u1'', email = ''jane@x.com'', role = USER\<rparr>)
     = Inl (AppError ''Invalid or expired token'' 401)"
  using access_token_round_trip [of 900999 1000 example_config
          "\<lparr>JWTPayload.userId = ''u1'', email = ''jane@x.com'', role = USER\<rparr>"]
        access_token_round_trip [of 901000 1000 example_config
          "\<lparr>JWTPayload.userId = ''u1'', email = ''jane@x.com'', role = USER\<rparr>"]
  by (simp add: example_config_def)

section \<open>Sessions: expiry, revocation, logout\<close>

text \<open>Facts about the two repository updates.\<close>

lemma find_holds: "find P xs = Some x \<Longrightarrow> P x"
  by (induction xs) (auto split: if_splits)

lemma find_member: "find P xs = Some x \<Longrightarrow> x \<in> set xs"
  by (induction xs) (auto split: if_splits)

lemma findByToken_Some:
  assumes "RefreshTokenRepository_findByToken db t = Some (rt, usr)"
  shows "RefreshToken.token rt = t \<and> RefreshToken.isActive rt \<and> RefreshToken.deletedAt rt = None
         \<and> rt \<in> set (refresh_tokens db)"
proof -
  from assms have f: "find (\<lambda>r. RefreshToken.token r = t \<and> RefreshToken.isActive r
                               \<and> RefreshToken.deletedAt r = None) (refresh_tokens db) = Some rt"
    by (simp add: RefreshTokenRepository_findByToken_def split: option.splits)
  from find_holds[OF f] find_member[OF f] show ?thesis by simp
qed

lemma findByToken_after_revokeToken:
  "RefreshTokenRepository_findByToken (snd (RefreshTokenRepository_revokeToken db t)) t = None"
proof -
  have h: "find (\<lambda>r. RefreshToken.token r = t \<and> RefreshToken.isActive r \<and> RefreshToken.deletedAt r = None)
          (map (\<lambda>r. if RefreshToken.token r = t then r\<lparr>RefreshToken.isActive := False\<rparr> else r)
               xs) = None" for xs
    by (induction xs) simp_all
  show ?thesis
    by (simp add: RefreshTokenRepository_findByToken_def RefreshTokenRepository_revokeToken_def h)
qed

lemma refreshToken_unknown:
  "RefreshTokenRepository_findByToken db t = None \<Longrightarrow>
   refreshToken cfg now db \<lparr>RefreshTokenDto.refreshToken = t\<rparr> =
     (Inl (AppError ''Invalid refresh token'' 401), db)"
  by (simp add: refreshToken_def verifyRefreshToken_def)

lemma revokeToken_twice:
  "RefreshTokenRepository_revokeToken (snd (RefreshTokenRepository_revokeToken db t)) t =
   RefreshTokenRepository_revokeToken db t"
proof -
  have pg: "(\<lambda>r. RefreshToken.token r = t) \<circ>
            (\<lambda>r. if RefreshToken.token r = t then r\<lparr>RefreshToken.isActive := False\<rparr> else r)
            = (\<lambda>r. RefreshToken.token r = t)"
    by (rule ext) simp
  have gg: "(\<lambda>r. if RefreshToken.token r = t then r\<lparr>RefreshToken.isActive := False\<rparr> else r) \<circ>
            (\<lambda>r. if RefreshToken.token r = t then r\<lparr>RefreshToken.isActive := False\<rparr> else r)
            = (\<lambda>r. if RefreshToken.token r = t then r\<lparr>RefreshToken.isActive := False\<rparr> else r)"
    by (rule ext) simp
  show ?thesis
    by (simp add: RefreshTokenRepository_revokeToken_def filter_map pg gg)
qed

lemma map_single_row:
  assumes "distinct (map f xs)" and "x \<in> set xs"
  shows "map (\<lambda>r. if f r = f x then g r else r) xs = map (\<lambda>r. if r = x then g x else r) xs"
proof (rule map_cong[OF refl])
  fix r assume "r \<in> set xs"
  with assms have "f r = f x \<longleftrightarrow> r = x"
    by (auto simp: distinct_map inj_on_def)
  then show "(if f r = f x then g r else r) = (if r = x then g x else r)" by auto
qed

text \<open>
  Claim C3. A stored session that is active and not soft-deleted but whose expiry
  lies before the current time: refresh with its token fails with
  \<open>AppError ''Refresh token expired'' 401\<close>; in the tables it returns, that row
  (and, the token being a unique key, no other row) has \<^verbatim>\<open>isActive\<close> false and the
  users are untouched. A further refresh with the same token, at any time, fails
  with status 401 again (now \<open>''Invalid refresh token''\<close>) and returns the tables as
  they are, so the session stays deactivated.
\<close>

theorem expired_refresh_deactivates:
  assumes uniq_tok: "distinct (map RefreshToken.token (refresh_tokens db))"
    and rt: "rt \<in> set (refresh_tokens db)" "RefreshToken.token rt = t"
            "RefreshToken.isActive rt" "RefreshToken.deletedAt rt = None"
    and expired: "expiresAt rt = Time e" "e < now"
    and call: "refreshToken cfg now db \<lparr>RefreshTokenDto.refreshToken = t\<rparr> = (res, db')"
  shows "res = Inl (AppError ''Refresh token expired'' 401) \<and>
         users db' = users db \<and>
         refresh_tokens db' =
           map (\<lambda>r. if r = rt then rt\<lparr>RefreshToken.isActive := False\<rparr> else r)
               (refresh_tokens db) \<and>
         refreshToken cfg now' db' \<lparr>RefreshTokenDto.refreshToken = t\<rparr>
           = (Inl (AppError ''Invalid refresh token'' 401), db')"
proof -
  have f1: "find (\<lambda>r. RefreshToken.token r = t \<and> RefreshToken.isActive r
                       \<and> RefreshToken.deletedAt r = None)
              (refresh_tokens db) = Some rt"
    by (rule find_distinct_key[where f = RefreshToken.token and k = t])
       (use uniq_tok rt in simp_all)
  have "refreshToken cfg now db \<lparr>RefreshTokenDto.refreshToken = t\<rparr> =
          (Inl (AppError ''Refresh token expired'' 401),
           snd (RefreshTokenRepository_revokeToken db t))"
    using expired
    by (simp add: refreshToken_def verifyRefreshToken_def
          RefreshTokenRepository_findByToken_def f1)
  with call have res: "res = Inl (AppError ''Refresh token expired'' 401)"
    and db': "db' = snd (RefreshTokenRepository_revokeToken db t)"
    by simp_all
  have rows: "refresh_tokens db' =
          map (\<lambda>r. if r = rt then rt\<lparr>RefreshToken.isActive := False\<rparr> else r) (refresh_tokens db)"
    using map_single_row[OF uniq_tok rt(1), of "\<lambda>r. r\<lparr>RefreshToken.isActive := False\<rparr>"] rt(2)
    by (simp add: db' RefreshTokenRepository_revokeToken_def)
  have usrs: "users db' = users db"
    by (simp add: db' RefreshTokenRepository_revokeToken_def)
  have again: "refreshToken cfg now' db' \<lparr>RefreshTokenDto.refreshToken = t\<rparr>
               = (Inl (AppError ''Invalid refresh token'' 401), db')"
    unfolding db' by (rule refreshToken_unknown) (rule findByToken_after_revokeToken)
  from res rows usrs again show ?thesis by blast
qed

theorem expired_refresh_deactivates_witness:
  "refreshToken example_config 6000 example_db \<lparr>RefreshTokenDto.refreshToken = ''aa''\<rparr>
     = (Inl (AppError ''Refresh token expired'' 401),
        example_db\<lparr>refresh_tokens :=
          [session_jane\<lparr>RefreshToken.isActive := False\<rparr>, session_jane2, session_bob,
           session_revoked]\<rparr>) \<and>
   refreshToken example_config 7000
     (example_db\<lparr>refresh_tokens :=
          [session_jane\<lparr>RefreshToken.isActive := False\<rparr>, session_jane2, session_bob,
           session_revoked]\<rparr>)
     \<lparr>RefreshTokenDto.refreshToken = ''aa''\<rparr>
     = (Inl (AppError ''Invalid refresh token'' 401),
        example_db\<lparr>refresh_tokens :=
          [session_jane\<lparr>RefreshToken.isActive := False\<rparr>, session_jane2, session_bob,
           session_revoked]\<rparr>)"
proof -
  have call: "refreshToken example_config 6000 example_db \<lparr>RefreshTokenDto.refreshToken = ''aa''\<rparr>
     = (Inl (AppError ''Refresh token expired'' 401),
        example_db\<lparr>refresh_tokens :=
          [session_jane\<lparr>RefreshToken.isActive := False\<rparr>, session_jane2, session_bob,
           session_revoked]\<rparr>)"
    by (simp add: example_defs refreshToken_def verifyRefreshToken_def
          RefreshTokenRepository_findByToken_def RefreshTokenRepository_revokeToken_def)
  have "distinct (map RefreshToken.token (refresh_tokens example_db))"
    and "session_jane \<in> set (refresh_tokens example_db)"
    and "RefreshToken.token session_jane = ''aa''"
    and "RefreshToken.isActive session_jane" and "RefreshToken.deletedAt session_jane = None"
    and "expiresAt session_jane = Time 5000" and "(5000::int) < 6000"
    by (simp_all add: example_defs)
  from expired_refresh_deactivates [OF this call, of 7000] call show ?thesis by blast
qed

text \<open>
  The branch of \<^verbatim>\<open>verifyRefreshToken\<close> that reports a revoked token is never
  taken: \<^verbatim>\<open>findByToken\<close> returns active rows only.
\<close>

lemma revoked_branch_unreachable:
  "fst (verifyRefreshToken now db t) \<noteq> Inl (AppError ''Refresh token has been revoked'' 401)"
proof (cases "RefreshTokenRepository_findByToken db t")
  case None
  then show ?thesis by (simp add: verifyRefreshToken_def)
next
  case (Some p)
  obtain rt usr where p: "p = (rt, usr)" by (cases p)
  from findByToken_Some[of db t rt usr] Some p have "RefreshToken.isActive rt" by simp
  with Some p show ?thesis
    by (simp add: verifyRefreshToken_def split: option.splits)
qed

text \<open>
  Claim C4. The session with token \<open>''dd''\<close> of \<open>example_db\<close> is stored, not
  expired at time 1000, owned by an active user, and has \<^verbatim>\<open>isActive\<close> false. Refresh
  with it fails with the message of the branch for an absent token, the same
  result as for the token \<open>''unknown''\<close> that no row has, and not with
  \<open>''Refresh token has been revoked''\<close>.
\<close>

theorem revoked_session_reported_invalid:
  "refreshToken example_config 1000 example_db \<lparr>RefreshTokenDto.refreshToken = ''dd''\<rparr>
     = (Inl (AppError ''Invalid refresh token'' 401), example_db) \<and>
   refreshToken example_config 1000 example_db \<lparr>RefreshTokenDto.refreshToken = ''unknown''\<rparr>
     = (Inl (AppError ''Invalid refresh token'' 401), example_db)"
  by (simp add: example_defs refreshToken_def verifyRefreshToken_def
        RefreshTokenRepository_findByToken_def)

text \<open>
  Claim C7. \<^verbatim>\<open>revokeRefreshToken\<close> (logout) has no error result. For every token
  string it returns the tables in which exactly the rows with that token have
  \<^verbatim>\<open>isActive\<close> false and every other row and every user is as before; a second
  call on the result returns the same flag and the same tables; and a refresh
  with that token on the result fails with status 401 and changes nothing.
\<close>

theorem logout_idempotent:
  assumes "revokeRefreshToken db t = (ok, db')"
  shows "users db' = users db \<and>
     refresh_tokens db' =
       map (\<lambda>r. if RefreshToken.token r = t then r\<lparr>RefreshToken.isActive := False\<rparr> else r)
           (refresh_tokens db) \<and>
     revokeRefreshToken db' t = (ok, db') \<and>
     refreshToken cfg now db' \<lparr>RefreshTokenDto.refreshToken = t\<rparr>
       = (Inl (AppError ''Invalid refresh token'' 401), db')"
proof -
  from assms have r: "RefreshTokenRepository_revokeToken db t = (ok, db')"
    by (simp add: revokeRefreshToken_def)
  then have db': "db' = snd (RefreshTokenRepository_revokeToken db t)" by simp
  have 1: "users db' = users db"
    unfolding db' by (simp add: RefreshTokenRepository_revokeToken_def)
  have 2: "refresh_tokens db' =
       map (\<lambda>r. if RefreshToken.token r = t then r\<lparr>RefreshToken.isActive := False\<rparr> else r)
           (refresh_tokens db)"
    unfolding db' by (simp add: RefreshTokenRepository_revokeToken_def)
  have 3: "revokeRefreshToken db' t = (ok, db')"
    unfolding db' revokeRefreshToken_def using revokeToken_twice[of db t] r by simp
  have 4: "refreshToken cfg now db' \<lparr>RefreshTokenDto.refreshToken = t\<rparr>
       = (Inl (AppError ''Invalid refresh token'' 401), db')"
    unfolding db' by (rule refreshToken_unknown) (rule findByToken_after_revokeToken)
  from 1 2 3 4 show ?thesis by blast
qed

theorem logout_idempotent_witness:
  "revokeRefreshToken example_db ''bb'' =
     (True, example_db\<lparr>refresh_tokens :=
              [session_jane, session_jane2\<lparr>RefreshToken.isActive := False\<rparr>, session_bob,
               session_revoked]\<rparr>) \<and>
   revokeRefreshToken
     (example_db\<lparr>refresh_tokens :=
              [session_jane, session_jane2\<lparr>RefreshToken.isActive := False\<rparr>, session_bob,
               session_revoked]\<rparr>) ''bb'' =
     (True, example_db\<lparr>refresh_tokens :=
              [session_jane, session_jane2\<lparr>RefreshToken.isActive := False\<rparr>, session_bob,
               session_revoked]\<rparr>) \<and>
   refreshToken example_config 1000
     (example_db\<lparr>refresh_tokens :=
              [session_jane, session_jane2\<lparr>RefreshToken.isActive := False\<rparr>, session_bob,
               session_revoked]\<rparr>)
     \<lparr>RefreshTokenDto.refreshToken = ''bb''\<rparr>
     = (Inl (AppError ''Invalid refresh token'' 401),
        example_db\<lparr>refresh_tokens :=
              [session_jane, session_jane2\<lparr>RefreshToken.isActive := False\<rparr>, session_bob,
               session_revoked]\<rparr>)"
proof -
  have call: "revokeRefreshToken example_db ''bb'' =
     (True, example_db\<lparr>refresh_tokens :=
              [session_jane, session_jane2\<lparr>RefreshToken.isActive := False\<rparr>, session_bob,
               session_revoked]\<rparr>)"
    by (simp add: example_defs revokeRefreshToken_def RefreshTokenRepository_revokeToken_def)
  from logout_idempotent [OF call, of example_config 1000] call show ?thesis by blast
qed

text \<open>
  Claim C8. \<^verbatim>\<open>revokeAllUserTokens\<close> (logout from all devices) keeps the users and
  the number and order of the session rows. Row by row: an active row of the
  given user differs from the old one in \<^verbatim>\<open>isActive\<close> only, which is false; a row
  of another user is unchanged; a row that was already inactive is unchanged.
  Afterwards the user owns no active row. The flag returned tells whether an
  active row of the user existed.
\<close>

theorem logoutAll_frame:
  assumes "revokeAllUserTokens db uid = (ok, db')"
  shows "users db' = users db \<and>
     length (refresh_tokens db') = length (refresh_tokens db) \<and>
     (\<forall>i < length (refresh_tokens db).
        let r = refresh_tokens db ! i; r' = refresh_tokens db' ! i in
          (userId r = uid \<and> RefreshToken.isActive r \<longrightarrow> r' = r\<lparr>RefreshToken.isActive := False\<rparr>) \<and>
          (userId r \<noteq> uid \<longrightarrow> r' = r) \<and>
          (\<not> RefreshToken.isActive r \<longrightarrow> r' = r)) \<and>
     (\<forall>r' \<in> set (refresh_tokens db'). userId r' = uid \<longrightarrow> \<not> RefreshToken.isActive r') \<and>
     ok = list_ex (\<lambda>r. userId r = uid \<and> RefreshToken.isActive r) (refresh_tokens db)"
proof -
  define g :: "RefreshToken \<Rightarrow> RefreshToken"
    where "g = (\<lambda>r. if userId r = uid \<and> RefreshToken.isActive r
                     then r\<lparr>RefreshToken.isActive := False\<rparr> else r)"
  have db': "db' = db\<lparr>refresh_tokens := map g (refresh_tokens db)\<rparr>"
    using assms
    by (simp add: revokeAllUserTokens_def RefreshTokenRepository_revokeAllUserTokens_def
          Let_def g_def)
  have 1: "users db' = users db" by (simp add: db')
  have 2: "length (refresh_tokens db') = length (refresh_tokens db)" by (simp add: db')
  have 3: "\<forall>i < length (refresh_tokens db).
        let r = refresh_tokens db ! i; r' = refresh_tokens db' ! i in
          (userId r = uid \<and> RefreshToken.isActive r \<longrightarrow> r' = r\<lparr>RefreshToken.isActive := False\<rparr>) \<and>
          (userId r \<noteq> uid \<longrightarrow> r' = r) \<and>
          (\<not> RefreshToken.isActive r \<longrightarrow> r' = r)"
    by (simp add: db' g_def Let_def)
  have 4: "\<forall>r' \<in> set (refresh_tokens db'). userId r' = uid \<longrightarrow> \<not> RefreshToken.isActive r'"
  proof
    fix r' assume "r' \<in> set (refresh_tokens db')"
    then obtain r where "r' = g r" by (auto simp: db')
    then show "userId r' = uid \<longrightarrow> \<not> RefreshToken.isActive r'"
      by (cases "userId r = uid \<and> RefreshToken.isActive r") (auto simp: g_def)
  qed
  have "(0 < length (filter P xs)) = list_ex P xs" for P :: "RefreshToken \<Rightarrow> bool" and xs
    by (induction xs) simp_all
  with assms have 5: "ok = list_ex (\<lambda>r. userId r = uid \<and> RefreshToken.isActive r) (refresh_tokens db)"
    by (simp add: revokeAllUserTokens_def RefreshTokenRepository_revokeAllUserTokens_def Let_def)
  from 1 2 3 4 5 show ?thesis by blast
qed

theorem logoutAll_frame_witness:
  "revokeAllUserTokens example_db ''u1'' =
     (True, example_db\<lparr>refresh_tokens :=
              [session_jane\<lparr>RefreshToken.isActive := False\<rparr>,
               session_jane2\<lparr>RefreshToken.isActive := False\<rparr>, session_bob,
               session_revoked]\<rparr>) \<and>
   users (snd (revokeAllUserTokens example_db ''u1'')) = users example_db \<and>
   refresh_tokens (snd (revokeAllUserTokens example_db ''u1'')) ! 2 = session_bob"
proof -
  have call: "revokeAllUserTokens example_db ''u1'' =
     (True, example_db\<lparr>refresh_tokens :=
              [session_jane\<lparr>RefreshToken.isActive := False\<rparr>,
               session_jane2\<lparr>RefreshToken.isActive := False\<rparr>, session_bob,
               session_revoked]\<rparr>)"
    by (simp add: example_defs revokeAllUserTokens_def
          RefreshTokenRepository_revokeAllUserTokens_def)
  from logoutAll_frame [OF call] call show ?thesis by (simp add: example_defs)
qed

section \<open>Login and registration\<close>

text \<open>What a successful login and a successful registration return and store.\<close>

lemma login_success:
  assumes "login tz bc cfg now rnd db d ua ip = (Inr resp, db')"
  shows "\<exists>u ua' ip'. UserRepository_findByEmail db (LoginDto.email d) = Some u \<and>
           User.isActive u \<and>
           comparePassword bc (LoginDto.password d) (User.password u) \<and>
           timestamp tz (getRefreshTokenExpiration tz cfg now) \<and>
           varchar 255 ua = Some ua' \<and> varchar 45 ip = Some ip' \<and>
           users db' = users db \<and>
           refresh_tokens db' = refresh_tokens db @
             [\<lparr>RefreshToken.token = rnd, userId = User.id u,
               expiresAt = getRefreshTokenExpiration tz cfg now, isActive = True,
               userAgent = ua', ipAddress = ip', deletedAt = None\<rparr>] \<and>
           resp = \<lparr>AuthResponse.status = ''success'',
                   token = generateAccessToken cfg now
                     \<lparr>JWTPayload.userId = User.id u, email = User.email u, role = User.role u\<rparr>,
                   refreshToken = rnd,
                   user = \<lparr>PublicUser.id = User.id u, name = User.name u,
                            email = User.email u, role = User.role u\<rparr>\<rparr>"
  using assms
  by (simp add: login_def createRefreshToken_def RefreshTokenRepository_create_def Let_def
        split: option.splits if_splits sum.splits prod.splits) auto

lemma register_success:
  assumes "register tz bc cfg now newId salt rnd db d ua ip = (Inr resp, db')"
  shows "\<exists>ua' ip'. UserRepository_findByEmail db (RegisterDto.email d) = None \<and>
         \<not> list_ex (\<lambda>u. User.id u = newId \<or> User.email u = RegisterDto.email d) (users db) \<and>
         timestamp tz (getRefreshTokenExpiration tz cfg now) \<and>
         varchar 255 ua = Some ua' \<and> varchar 45 ip = Some ip' \<and>
         users db' = users db @
           [\<lparr>User.id = newId, name = RegisterDto.name d, email = RegisterDto.email d,
             password = hashPassword bc salt (RegisterDto.password d),
             role = (case RegisterDto.role d of None \<Rightarrow> USER | Some r \<Rightarrow> r),
             isActive = True, deletedAt = None\<rparr>] \<and>
         refresh_tokens db' = refresh_tokens db @
           [\<lparr>RefreshToken.token = rnd, userId = newId,
             expiresAt = getRefreshTokenExpiration tz cfg now, isActive = True,
             userAgent = ua', ipAddress = ip', deletedAt = None\<rparr>] \<and>
         AuthResponse.refreshToken resp = rnd \<and>
         PublicUser.id (user resp) = newId \<and>
         PublicUser.email (user resp) = RegisterDto.email d"
  using assms
  by (simp add: register_def UserRepository_create_def createRefreshToken_def
        RefreshTokenRepository_create_def Let_def
        split: option.splits if_splits sum.splits prod.splits) auto

lemma find_snoc:
  "find P (xs @ [y]) = (case find P xs of None \<Rightarrow> (if P y then Some y else None) | Some x \<Rightarrow> Some x)"
  by (induction xs) simp_all


lemma findByEmail_after_register:
  assumes "register tz bc cfg now newId salt rnd db d ua ip = (Inr resp, db')"
  shows "\<exists>u. UserRepository_findByEmail db' (RegisterDto.email d) = Some u \<and> User.id u = newId
             \<and> User.email u = RegisterDto.email d"
proof -
  from register_success[OF assms]
  have none: "UserRepository_findByEmail db (RegisterDto.email d) = None"
    and us: "users db' = users db @
           [\<lparr>User.id = newId, name = RegisterDto.name d, email = RegisterDto.email d,
             password = hashPassword bc salt (RegisterDto.password d),
             role = (case RegisterDto.role d of None \<Rightarrow> USER | Some r \<Rightarrow> r),
             isActive = True, deletedAt = None\<rparr>]"
    by blast+
  from none show ?thesis
    by (simp add: UserRepository_findByEmail_def us find_snoc)
qed

lemma register_jane:
  "register utc plain_bcrypt example_config 0 ''u1'' ''s1'' ''aa'' empty_db jane_dto None None
     = (Inr (jane_response 0 ''aa''), registered_db)"
  by (simp add: register_def UserRepository_findByEmail_def UserRepository_create_def
        createRefreshToken_def RefreshTokenRepository_create_def hashPassword_def Let_def
        generateAccessToken_def jwt_sign_def example_defs more_defs
        getRefreshTokenExpiration_def parseInt_def addDays_def timeClip_def
        msPerDay_def isWhiteSpace_def isDigit_def digitsValue_def digitValue_def
        timestamp_def varchar_def LocalTime_def UTC_def)

text \<open>
  Claim C5, as stated, fails for a deactivated account: Bob is stored with
  \<^verbatim>\<open>isActive\<close> false, and a login with his email and a wrong password is answered
  with status 403 and \<open>''Account is deactivated''\<close>, while a login with an email of
  no user is answered with status 401 and \<open>''Invalid email or password''\<close>.
\<close>

theorem login_failures_differ_for_inactive_account:
  "fst (login utc plain_bcrypt example_config 1000 ''ee'' example_db
          \<lparr>LoginDto.email = ''bob@x.com'', password = ''wrong''\<rparr> None None)
     = Inl (AppError ''Account is deactivated'' 403) \<and>
   fst (login utc plain_bcrypt example_config 1000 ''ee'' example_db
          \<lparr>LoginDto.email = ''nobody@x.com'', password = ''wrong''\<rparr> None None)
     = Inl (AppError ''Invalid email or password'' 401)"
  by (simp add: example_defs login_def UserRepository_findByEmail_def)

text \<open>
  Claim C5, amended. For a stored, not soft-deleted user whose account is active:
  a login with the user's email and a password that does not match, and a login
  with an email that no visible user has, return the same error,
  \<open>AppError ''Invalid email or password'' 401\<close>, and leave the tables unchanged,
  whatever the clock, the random token and the client metadata of either call.
\<close>

theorem login_enumeration_resistance:
  assumes "UserRepository_findByEmail db e1 = Some u" and "User.isActive u"
    and "\<not> comparePassword bc pw1 (User.password u)"
    and "UserRepository_findByEmail db e2 = None"
  shows "login tz bc cfg now rnd db \<lparr>LoginDto.email = e1, password = pw1\<rparr> ua ip
           = (Inl (AppError ''Invalid email or password'' 401), db) \<and>
         login tz bc cfg now' rnd' db \<lparr>LoginDto.email = e2, password = pw2\<rparr> ua' ip'
           = (Inl (AppError ''Invalid email or password'' 401), db)"
  using assms by (simp add: login_def)

theorem login_enumeration_resistance_witness:
  "login utc plain_bcrypt example_config 1000 ''ee'' example_db
          \<lparr>LoginDto.email = ''jane@x.com'', password = ''wrong''\<rparr> None None
     = (Inl (AppError ''Invalid email or password'' 401), example_db) \<and>
   login utc plain_bcrypt example_config 2000 ''ff'' example_db
          \<lparr>LoginDto.email = ''nobody@x.com'', password = ''secret1''\<rparr> None None
     = (Inl (AppError ''Invalid email or password'' 401), example_db)"
proof -
  have "UserRepository_findByEmail example_db ''jane@x.com'' = Some user_jane"
    and "User.isActive user_jane"
    and "\<not> comparePassword plain_bcrypt ''wrong'' (User.password user_jane)"
    and "UserRepository_findByEmail example_db ''nobody@x.com'' = None"
    by (simp_all add: example_defs UserRepository_findByEmail_def comparePassword_def)
  from login_enumeration_resistance [OF this] show ?thesis .
qed

text \<open>
  For a stored account that is deactivated, the login is refused with status 403
  before the password is compared.
\<close>

lemma login_deactivated:
  assumes "UserRepository_findByEmail db e = Some u" and "\<not> User.isActive u"
  shows "login tz bc cfg now rnd db \<lparr>LoginDto.email = e, password = pw\<rparr> ua ip
           = (Inl (AppError ''Account is deactivated'' 403), db)"
  using assms by (simp add: login_def)

text \<open>
  Claim C6. If a not soft-deleted user with the email of the request is stored,
  \<^verbatim>\<open>register\<close> fails with \<open>AppError ''User with this email already exists'' 409\<close>
  and returns the tables unchanged (no user, no session is created). After a
  registration that succeeded, every further registration with the same email
  fails in that way: of two registrations with one email at most one succeeds.
\<close>

theorem register_conflict:
  "(UserRepository_findByEmail db (RegisterDto.email d) \<noteq> None \<longrightarrow>
      register tz bc cfg now newId salt rnd db d ua ip
        = (Inl (AppError ''User with this email already exists'' 409), db)) \<and>
   (register tz bc cfg now newId salt rnd db d ua ip = (Inr resp, db') \<and>
    RegisterDto.email d2 = RegisterDto.email d \<longrightarrow>
      register tz bc cfg now2 newId2 salt2 rnd2 db' d2 ua2 ip2
        = (Inl (AppError ''User with this email already exists'' 409), db'))"
proof (intro conjI impI)
  assume "UserRepository_findByEmail db (RegisterDto.email d) \<noteq> None"
  then show "register tz bc cfg now newId salt rnd db d ua ip
        = (Inl (AppError ''User with this email already exists'' 409), db)"
    by (auto simp: register_def)
next
  assume a: "register tz bc cfg now newId salt rnd db d ua ip = (Inr resp, db') \<and>
    RegisterDto.email d2 = RegisterDto.email d"
  with findByEmail_after_register[of tz bc cfg now newId salt rnd db d ua ip resp db']
  obtain u where "UserRepository_findByEmail db' (RegisterDto.email d2) = Some u" by auto
  then show "register tz bc cfg now2 newId2 salt2 rnd2 db' d2 ua2 ip2
        = (Inl (AppError ''User with this email already exists'' 409), db')"
    by (simp add: register_def)
qed

theorem register_conflict_witness:
  "register utc plain_bcrypt example_config 0 ''u1'' ''s1'' ''aa'' empty_db jane_dto None None
     = (Inr (jane_response 0 ''aa''), registered_db) \<and>
   register utc plain_bcrypt example_config 5 ''u7'' ''s7'' ''bb'' registered_db
       (jane_dto\<lparr>RegisterDto.name := ''Janet'', RegisterDto.password := ''other''\<rparr>) None None
     = (Inl (AppError ''User with this email already exists'' 409), registered_db)"
proof -
  have "register utc plain_bcrypt example_config 0 ''u1'' ''s1'' ''aa'' empty_db jane_dto None None
          = (Inr (jane_response 0 ''aa''), registered_db) \<and>
        RegisterDto.email (jane_dto\<lparr>RegisterDto.name := ''Janet'', RegisterDto.password := ''other''\<rparr>)
          = RegisterDto.email jane_dto"
    by (simp add: register_jane)
  with register_conflict [of empty_db jane_dto utc plain_bcrypt example_config 0 "''u1''" "''s1''"
         "''aa''" None None "jane_response 0 ''aa''" registered_db
         "jane_dto\<lparr>RegisterDto.name := ''Janet'', RegisterDto.password := ''other''\<rparr>"
         5 "''u7''" "''s7''" "''bb''" None None]
  show ?thesis by blast
qed

section \<open>Email lookup\<close>








section \<open>Lifetime of a refresh token\<close>

text \<open>The computed expiry, when the database takes it and when it is invalid.\<close>

lemma expiration_valid:
  assumes "timestamp tz (getRefreshTokenExpiration tz cfg now)"
  shows "\<exists>n. parseInt (remove1 (CHR ''d'') (jwt_refreshExpiresIn cfg)) = Some n \<and>
             \<bar>UTC tz (LocalTime tz now + n * 86400000)\<bar> \<le> 8640000000000000 \<and>
             getRefreshTokenExpiration tz cfg now
               = Time (UTC tz (LocalTime tz now + n * 86400000))"
proof (cases "parseInt (remove1 (CHR ''d'') (jwt_refreshExpiresIn cfg))")
  case None
  with assms show ?thesis
    by (simp add: getRefreshTokenExpiration_def addDays_def timestamp_def)
next
  case (Some n)
  then have e: "getRefreshTokenExpiration tz cfg now
                  = timeClip (UTC tz (LocalTime tz now + n * 86400000))"
    by (simp add: getRefreshTokenExpiration_def addDays_def msPerDay_def)
  show ?thesis
  proof (cases "\<bar>UTC tz (LocalTime tz now + n * 86400000)\<bar> \<le> 8640000000000000")
    case True
    with Some e show ?thesis by (simp add: timeClip_def)
  next
    case False
    with assms e show ?thesis by (simp add: timeClip_def timestamp_def)
  qed
qed

lemma expiration_invalid:
  assumes "parseInt (remove1 (CHR ''d'') (jwt_refreshExpiresIn cfg)) = None"
  shows "getRefreshTokenExpiration tz cfg now = InvalidDate"
  using assms by (simp add: getRefreshTokenExpiration_def addDays_def)

lemma login_row:
  assumes "login tz bc cfg now rnd db d ua ip = (Inr resp, db')"
  shows "\<exists>ua' ip'. timestamp tz (getRefreshTokenExpiration tz cfg now) \<and>
           refresh_tokens db' = refresh_tokens db @
             [\<lparr>RefreshToken.token = AuthResponse.refreshToken resp,
               userId = PublicUser.id (user resp),
               expiresAt = getRefreshTokenExpiration tz cfg now, isActive = True,
               userAgent = ua', ipAddress = ip', deletedAt = None\<rparr>]"
  using login_success[OF assms] by auto

lemma register_row:
  assumes "register tz bc cfg now newId salt rnd db d ua ip = (Inr resp, db')"
  shows "\<exists>ua' ip'. timestamp tz (getRefreshTokenExpiration tz cfg now) \<and>
           refresh_tokens db' = refresh_tokens db @
             [\<lparr>RefreshToken.token = AuthResponse.refreshToken resp,
               userId = PublicUser.id (user resp),
               expiresAt = getRefreshTokenExpiration tz cfg now, isActive = True,
               userAgent = ua', ipAddress = ip', deletedAt = None\<rparr>]"
  using register_success[OF assms] by auto

text \<open>
  Claim C10. With \<open>n\<close> the result of \<^verbatim>\<open>parseInt\<close> on the configured string without
  its first \<open>d\<close>: a successful login or registration appends one session row,
  whose token is the refresh token of the response and whose expiry is the
  current date moved by \<open>n\<close> calendar days of local time, that is the time value
  \<open>UTC (LocalTime now + n * 86400000)\<close>, a valid date. In a zone whose offset
  never changes this is \<open>now + n * 86400000\<close>. The unit that the string names is
  not read (\<open>''12h''\<close> gives twelve days). When \<^verbatim>\<open>parseInt\<close> finds no integer the
  computed expiry is the invalid date; the insert of the session then fails, so
  neither login nor registration succeeds.
\<close>

theorem refresh_token_expiry_in_days:
  "(login tz bc cfg now rnd db ld ua ip = (Inr resp, db') \<or>
    register tz bc cfg now newId salt rnd db rd ua ip = (Inr resp, db') \<longrightarrow>
      (\<exists>n ua' ip'.
         parseInt (remove1 (CHR ''d'') (jwt_refreshExpiresIn cfg)) = Some n \<and>
         \<bar>UTC tz (LocalTime tz now + n * 86400000)\<bar> \<le> 8640000000000000 \<and>
         refresh_tokens db' = refresh_tokens db @
           [\<lparr>RefreshToken.token = AuthResponse.refreshToken resp,
             userId = PublicUser.id (user resp),
             expiresAt = Time (UTC tz (LocalTime tz now + n * 86400000)),
             isActive = True, userAgent = ua', ipAddress = ip', deletedAt = None\<rparr>])) \<and>
   ((\<forall>t b. LocalTZA tz t b = c) \<longrightarrow>
      UTC tz (LocalTime tz now + m * 86400000) = now + m * 86400000) \<and>
   (parseInt (remove1 (CHR ''d'') (jwt_refreshExpiresIn cfg)) = None \<longrightarrow>
      getRefreshTokenExpiration tz cfg now = InvalidDate \<and>
      login tz bc cfg now rnd db ld ua ip \<noteq> (Inr resp, db') \<and>
      register tz bc cfg now newId salt rnd db rd ua ip \<noteq> (Inr resp, db'))"
proof (intro conjI impI)
  assume "login tz bc cfg now rnd db ld ua ip = (Inr resp, db') \<or>
    register tz bc cfg now newId salt rnd db rd ua ip = (Inr resp, db')"
  then show "\<exists>n ua' ip'.
         parseInt (remove1 (CHR ''d'') (jwt_refreshExpiresIn cfg)) = Some n \<and>
         \<bar>UTC tz (LocalTime tz now + n * 86400000)\<bar> \<le> 8640000000000000 \<and>
         refresh_tokens db' = refresh_tokens db @
           [\<lparr>RefreshToken.token = AuthResponse.refreshToken resp,
             userId = PublicUser.id (user resp),
             expiresAt = Time (UTC tz (LocalTime tz now + n * 86400000)),
             isActive = True, userAgent = ua', ipAddress = ip', deletedAt = None\<rparr>]"
  proof
    assume "login tz bc cfg now rnd db ld ua ip = (Inr resp, db')"
    from login_row[OF this] obtain ua' ip' where
      ts: "timestamp tz (getRefreshTokenExpiration tz cfg now)"
      and rows: "refresh_tokens db' = refresh_tokens db @
             [\<lparr>RefreshToken.token = AuthResponse.refreshToken resp,
               userId = PublicUser.id (user resp),
               expiresAt = getRefreshTokenExpiration tz cfg now, isActive = True,
               userAgent = ua', ipAddress = ip', deletedAt = None\<rparr>]"
      by blast
    from expiration_valid[OF ts] rows show ?thesis by auto
  next
    assume "register tz bc cfg now newId salt rnd db rd ua ip = (Inr resp, db')"
    from register_row[OF this] obtain ua' ip' where
      ts: "timestamp tz (getRefreshTokenExpiration tz cfg now)"
      and rows: "refresh_tokens db' = refresh_tokens db @
             [\<lparr>RefreshToken.token = AuthResponse.refreshToken resp,
               userId = PublicUser.id (user resp),
               expiresAt = getRefreshTokenExpiration tz cfg now, isActive = True,
               userAgent = ua', ipAddress = ip', deletedAt = None\<rparr>]"
      by blast
    from expiration_valid[OF ts] rows show ?thesis by auto
  qed
next
  assume "\<forall>t b. LocalTZA tz t b = c"
  then show "UTC tz (LocalTime tz now + m * 86400000) = now + m * 86400000"
    by (simp add: UTC_def LocalTime_def)
next
  assume n: "parseInt (remove1 (CHR ''d'') (jwt_refreshExpiresIn cfg)) = None"
  then show inv: "getRefreshTokenExpiration tz cfg now = InvalidDate"
    by (rule expiration_invalid)
  show "login tz bc cfg now rnd db ld ua ip \<noteq> (Inr resp, db')"
  proof
    assume "login tz bc cfg now rnd db ld ua ip = (Inr resp, db')"
    from login_success[OF this] have "timestamp tz (getRefreshTokenExpiration tz cfg now)"
      by blast
    with inv show False by (simp add: timestamp_def)
  qed
  show "register tz bc cfg now newId salt rnd db rd ua ip \<noteq> (Inr resp, db')"
  proof
    assume "register tz bc cfg now newId salt rnd db rd ua ip = (Inr resp, db')"
    from register_success[OF this] have "timestamp tz (getRefreshTokenExpiration tz cfg now)"
      by blast
    with inv show False by (simp add: timestamp_def)
  qed
qed

theorem refresh_token_expiry_in_days_witness:
  "login utc plain_bcrypt (example_config\<lparr>jwt_refreshExpiresIn := ''12h''\<rparr>) 1000 ''bb''
       registered_db \<lparr>LoginDto.email = ''jane@x.com'', password = ''secret1''\<rparr> None None
     = (Inr (jane_response 1000 ''bb''),
        registered_db\<lparr>refresh_tokens :=
          [session_new,
           session_new\<lparr>RefreshToken.token := ''bb'', expiresAt := Time 1036801000\<rparr>]\<rparr>) \<and>
   (1036801000 :: int) = 1000 + 12 * 86400000 \<and>
   register zone_dst plain_bcrypt example_config 99913600000 ''u1'' ''s1'' ''aa'' empty_db
       jane_dto (Some ''curl'') None
     = (Inr (jane_response 99913600000 ''aa''),
        registered_db\<lparr>refresh_tokens :=
          [session_new\<lparr>expiresAt := Time 102502000000, userAgent := Some ''curl''\<rparr>]\<rparr>) \<and>
   (102502000000 :: int) = 99913600000 + 30 * 86400000 - 3600000 \<and>
   getRefreshTokenExpiration utc (example_config\<lparr>jwt_refreshExpiresIn := ''abc''\<rparr>) 1000
     = InvalidDate \<and>
   login utc plain_bcrypt (example_config\<lparr>jwt_refreshExpiresIn := ''abc''\<rparr>) 1000 ''bb''
       registered_db \<lparr>LoginDto.email = ''jane@x.com'', password = ''secret1''\<rparr> None None
     = (Inl QueryFailedError, registered_db)"
proof -
  have q: "parseInt ''12h'' = Some 12" "parseInt ''abc'' = None" "parseInt ''30'' = Some 30"
    by (simp_all add: parseInt_def isWhiteSpace_def isDigit_def digitsValue_def digitValue_def)
  have call1: "login utc plain_bcrypt (example_config\<lparr>jwt_refreshExpiresIn := ''12h''\<rparr>) 1000
       ''bb'' registered_db \<lparr>LoginDto.email = ''jane@x.com'', password = ''secret1''\<rparr> None None
     = (Inr (jane_response 1000 ''bb''),
        registered_db\<lparr>refresh_tokens :=
          [session_new,
           session_new\<lparr>RefreshToken.token := ''bb'', expiresAt := Time 1036801000\<rparr>]\<rparr>)"
    by (simp add: login_def UserRepository_findByEmail_def comparePassword_def
          createRefreshToken_def RefreshTokenRepository_create_def Let_def
          generateAccessToken_def jwt_sign_def getRefreshTokenExpiration_def q addDays_def
          timeClip_def msPerDay_def timestamp_def varchar_def LocalTime_def UTC_def
          example_defs more_defs)
  have call2: "register zone_dst plain_bcrypt example_config 99913600000 ''u1'' ''s1'' ''aa''
       empty_db jane_dto (Some ''curl'') None
     = (Inr (jane_response 99913600000 ''aa''),
        registered_db\<lparr>refresh_tokens :=
          [session_new\<lparr>expiresAt := Time 102502000000, userAgent := Some ''curl''\<rparr>]\<rparr>)"
    by (simp add: register_def UserRepository_findByEmail_def UserRepository_create_def
          createRefreshToken_def RefreshTokenRepository_create_def hashPassword_def Let_def
          generateAccessToken_def jwt_sign_def getRefreshTokenExpiration_def q addDays_def
          timeClip_def msPerDay_def timestamp_def varchar_def LocalTime_def UTC_def
          zone_dst_def example_defs more_defs)
  have call3: "login utc plain_bcrypt (example_config\<lparr>jwt_refreshExpiresIn := ''abc''\<rparr>) 1000
       ''bb'' registered_db \<lparr>LoginDto.email = ''jane@x.com'', password = ''secret1''\<rparr> None None
     = (Inl QueryFailedError, registered_db)"
    by (simp add: login_def UserRepository_findByEmail_def comparePassword_def
          createRefreshToken_def RefreshTokenRepository_create_def Let_def
          generateAccessToken_def jwt_sign_def getRefreshTokenExpiration_def q addDays_def
          timestamp_def example_defs more_defs)
  have none: "parseInt (remove1 (CHR ''d'')
                (jwt_refreshExpiresIn (example_config\<lparr>jwt_refreshExpiresIn := ''abc''\<rparr>))) = None"
    by (simp add: q)
  have arith: "(1036801000 :: int) = 1000 + 12 * 86400000"
              "(102502000000 :: int) = 99913600000 + 30 * 86400000 - 3600000"
    by simp_all
  from refresh_token_expiry_in_days
         [where tz = utc and bc = plain_bcrypt
            and cfg = "example_config\<lparr>jwt_refreshExpiresIn := ''12h''\<rparr>" and now = 1000
            and rnd = "''bb''" and db = registered_db
            and ld = "\<lparr>LoginDto.email = ''jane@x.com'', password = ''secret1''\<rparr>"
            and ua = None and ip = None and resp = "jane_response 1000 ''bb''"]
       refresh_token_expiry_in_days
         [where tz = zone_dst and bc = plain_bcrypt and cfg = example_config
            and now = 99913600000 and newId = "''u1''" and salt = "''s1''" and rnd = "''aa''"
            and db = empty_db and rd = jane_dto and ua = "Some ''curl''" and ip = None
            and resp = "jane_response 99913600000 ''aa''"]
       refresh_token_expiry_in_days
         [where tz = utc and bc = plain_bcrypt
            and cfg = "example_config\<lparr>jwt_refreshExpiresIn := ''abc''\<rparr>" and now = 1000
            and rnd = "''bb''" and db = registered_db
            and ld = "\<lparr>LoginDto.email = ''jane@x.com'', password = ''secret1''\<rparr>"
            and ua = None and ip = None]
       call1 call2 call3 none arith
  show ?thesis by blast
qed

end
